theory Spec2Isabelle
  imports Main "HOL-Library.Sublist"
begin

text \<open>
  A model of \<^verbatim>\<open>app.py\<close>, the backend of a personal media list: registration behind an
  administrator key, login, and the list, create, update and delete routes for the
  items of the logged-in user. The store is PostgreSQL; its tables, transactions and the
  SQL statements of the source are modelled here, each handler is a function from the
  request and the store to the response and the store, and every exception of the source
  is a value.
\<close>

section \<open>Data model\<close>

text \<open>
  The two tables of \<^verbatim>\<open>app.py\<close>. Column names are those of the SQL statements in the
  source; the \<^verbatim>\<open>user_id\<close> column of \<^verbatim>\<open>users\<close> is called \<open>u_user_id\<close>, since
  \<open>user_id\<close> names the owner column of \<^verbatim>\<open>media_items\<close>. Identifiers are natural
  numbers (the route converter \<^verbatim>\<open>int\<close> of Flask accepts digits only), timestamps are
  clock ticks. Field values have the types of the data model: strings for \<^verbatim>\<open>title\<close>,
  \<^verbatim>\<open>media_type\<close>, \<^verbatim>\<open>status\<close> and \<^verbatim>\<open>comment\<close>, numbers for progress and rating.
\<close>

record user_row =
  u_user_id :: nat
  username :: string
  password_hash :: string

record media_item =
  media_id :: nat
  user_id :: nat
  title :: string
  media_type :: string
  status :: string
  current_progress :: "int option"
  rating :: "int option"
  comment :: "string option"
  added_date :: nat

record tables =
  users :: "user_row list"
  media_items :: "media_item list"

text \<open>
  The store between two requests: the committed rows and the two sequences behind
  \<^verbatim>\<open>RETURNING user_id\<close> and \<^verbatim>\<open>RETURNING media_id\<close>. A sequence is not part of any
  transaction: a value drawn by a statement that is rolled back stays drawn.
\<close>

record database =
  tabs :: tables
  users_user_id_seq :: nat
  media_items_media_id_seq :: nat

text \<open>
  An open connection: the committed rows, the rows as the running transaction sees
  them, and the sequences.
\<close>

record conn =
  committed :: tables
  working :: tables
  user_seq :: nat
  media_seq :: nat

datatype exn =
    KeyError string
  | AttributeError
  | IntegrityError
  | DataError
  | OperationalError

text \<open>The places where a handler calls the store, each of which may raise.\<close>

datatype site =
    Connect
  | InsertUser
  | SelectUser
  | SelectMedia
  | CheckTitle
  | InsertMedia
  | DeleteMedia
  | UpdateMedia
  | Commit

text \<open>
  What the handlers take from their surroundings: the configured administrator key,
  the two password primitives of \<^verbatim>\<open>werkzeug.security\<close>, the store's clock, and which
  store calls fail during this request.
\<close>

record env =
  ADMIN_MASTER_KEY :: string
  generate_password_hash :: "string \<Rightarrow> string"
  check_password_hash :: "string \<Rightarrow> string \<Rightarrow> bool"
  now :: nat
  raises :: "site \<Rightarrow> bool"

section \<open>Connections and transactions\<close>

definition connect :: "database \<Rightarrow> conn" where
  "connect db = \<lparr>committed = tabs db, working = tabs db,
     user_seq = users_user_id_seq db, media_seq = media_items_media_id_seq db\<rparr>"

definition get_db_connection :: "env \<Rightarrow> database \<Rightarrow> conn option" where
  "get_db_connection e db = (if raises e Connect then None else Some (connect db))"

definition rollback :: "conn \<Rightarrow> conn" where
  "rollback c = c\<lparr>working := committed c\<rparr>"

text \<open>Closing a connection drops whatever the transaction has not committed.\<close>

definition close :: "conn \<Rightarrow> database" where
  "close c = \<lparr>tabs = committed c, users_user_id_seq = user_seq c,
     media_items_media_id_seq = media_seq c\<rparr>"

text \<open>
  A store call returns a value or raises, and leaves the connection in some state either
  way. \<open>and_then\<close> runs the next statement of a \<^verbatim>\<open>try\<close> block unless the previous one
  raised.
\<close>

type_synonym 'a io = "conn \<Rightarrow> (exn + 'a) \<times> conn"

definition ret :: "'a \<Rightarrow> 'a io" where
  "ret x c = (Inr x, c)"

definition raise :: "exn \<Rightarrow> 'a io" where
  "raise x c = (Inl x, c)"

definition and_then :: "'a io \<Rightarrow> ('a \<Rightarrow> 'b io) \<Rightarrow> 'b io" where
  "and_then m f c = (case m c of (Inl x, c') \<Rightarrow> (Inl x, c') | (Inr v, c') \<Rightarrow> f v c')"

definition store_call :: "env \<Rightarrow> site \<Rightarrow> 'a io \<Rightarrow> 'a io" where
  "store_call e s m c = (if raises e s then (Inl OperationalError, c) else m c)"

definition commit :: "env \<Rightarrow> unit io" where
  "commit e = store_call e Commit (\<lambda>c. (Inr (), c\<lparr>committed := working c\<rparr>))"

section \<open>The SQL statements\<close>

subsection \<open>ILIKE\<close>

text \<open>
  PostgreSQL's pattern language: \<^verbatim>\<open>%\<close> matches any string, \<^verbatim>\<open>_\<close> any one character,
  a backslash takes the next character literally, and a pattern must not end in a lone
  backslash. \<^verbatim>\<open>ILIKE\<close> compares without regard to case. A string is a list of 8-bit
  characters here: the letters are the ASCII ones, and \<^verbatim>\<open>_\<close> stands for one of these
  characters.
\<close>

datatype like_tok = AnyString | AnyChar | Literal char

fun like_parse :: "string \<Rightarrow> like_tok list option" where
  "like_parse [] = Some []"
| "like_parse (c # cs) =
     (if c = CHR ''%'' then map_option (Cons AnyString) (like_parse cs)
      else if c = CHR ''_'' then map_option (Cons AnyChar) (like_parse cs)
      else if c = CHR 0x5C then
        (case cs of [] \<Rightarrow> None
         | d # ds \<Rightarrow> map_option (Cons (Literal d)) (like_parse ds))
      else map_option (Cons (Literal c)) (like_parse cs))"

fun like_match :: "like_tok list \<Rightarrow> string \<Rightarrow> bool" where
  "like_match [] [] = True"
| "like_match [] (d # s) = False"
| "like_match (AnyString # p) [] = like_match p []"
| "like_match (AnyString # p) (d # s) = (like_match p (d # s) \<or> like_match (AnyString # p) s)"
| "like_match (AnyChar # p) [] = False"
| "like_match (AnyChar # p) (d # s) = like_match p s"
| "like_match (Literal c # p) [] = False"
| "like_match (Literal c # p) (d # s) = (c = d \<and> like_match p s)"

definition lower_char :: "char \<Rightarrow> char" where
  "lower_char c =
     (case map_of (zip ''ABCDEFGHIJKLMNOPQRSTUVWXYZ'' ''abcdefghijklmnopqrstuvwxyz'') c of
        None \<Rightarrow> c
      | Some d \<Rightarrow> d)"

definition lower :: "string \<Rightarrow> string" where
  "lower s = map lower_char s"

subsection \<open>Statements on \<^verbatim>\<open>users\<close>\<close>

text \<open>
  Modelled from the spec: the schema of \<^verbatim>\<open>users\<close> is not part of the source. The spec
  has \<^verbatim>\<open>username\<close> unique at the store level, a colliding creation failing rather than
  overwriting, and \<^verbatim>\<open>user_id\<close> generated by the store.

  \<^verbatim>\<open>INSERT INTO users (username, password_hash) VALUES (%s, %s) RETURNING user_id\<close>
\<close>

definition insert_user :: "env \<Rightarrow> string \<Rightarrow> string \<Rightarrow> nat io" where
  "insert_user e name hashed = store_call e InsertUser (\<lambda>c.
     let new_user_id = user_seq c; c1 = c\<lparr>user_seq := Suc new_user_id\<rparr> in
     if list_ex (\<lambda>u. username u = name) (users (working c)) then (Inl IntegrityError, c1)
     else (Inr new_user_id,
       c1\<lparr>working := (working c)\<lparr>users := users (working c) @
         [\<lparr>u_user_id = new_user_id, username = name, password_hash = hashed\<rparr>]\<rparr>\<rparr>))"

text \<open>
  \<^verbatim>\<open>SELECT * FROM users WHERE username = %s\<close> followed by \<^verbatim>\<open>fetchone()\<close>. A missing
  \<^verbatim>\<open>username\<close> is sent as \<^verbatim>\<open>NULL\<close>, which equals no stored name.
\<close>

definition select_user :: "env \<Rightarrow> string option \<Rightarrow> user_row option io" where
  "select_user e name = store_call e SelectUser (\<lambda>c.
     (Inr (case name of None \<Rightarrow> None
           | Some n \<Rightarrow> find (\<lambda>u. username u = n) (users (working c))), c))"

subsection \<open>Statements on \<^verbatim>\<open>media_items\<close>\<close>

text \<open>
  \<^verbatim>\<open>SELECT * FROM media_items WHERE user_id = %s [AND title ILIKE %s] ORDER BY added_date DESC\<close>
\<close>

definition order_by_added_date_desc :: "media_item list \<Rightarrow> media_item list" where
  "order_by_added_date_desc rows = rev (sort_key added_date rows)"

definition select_media :: "env \<Rightarrow> nat \<Rightarrow> string option \<Rightarrow> media_item list io" where
  "select_media e uid pattern = store_call e SelectMedia (\<lambda>c.
     let mine = filter (\<lambda>m. user_id m = uid) (media_items (working c)) in
     case pattern of
       None \<Rightarrow> (Inr (order_by_added_date_desc mine), c)
     | Some p \<Rightarrow>
         (case like_parse (lower p) of
            None \<Rightarrow> (Inl DataError, c)
          | Some toks \<Rightarrow>
              (Inr (order_by_added_date_desc
                 (filter (\<lambda>m. like_match toks (lower (title m))) mine)), c)))"

text \<open>
  \<^verbatim>\<open>SELECT media_id FROM media_items WHERE title = %s AND user_id = %s\<close> followed by
  \<^verbatim>\<open>fetchone()\<close>.
\<close>

definition check_title :: "env \<Rightarrow> string \<Rightarrow> nat \<Rightarrow> nat option io" where
  "check_title e t uid = store_call e CheckTitle (\<lambda>c.
     (Inr (map_option media_id
        (find (\<lambda>m. title m = t \<and> user_id m = uid) (media_items (working c)))), c))"

text \<open>
  Modelled from the spec: the schema of \<^verbatim>\<open>media_items\<close> is not part of the source. The
  spec has \<^verbatim>\<open>media_id\<close> generated by the store and \<^verbatim>\<open>added_date\<close> the creation
  timestamp, assigned by the store.

  \<^verbatim>\<open>INSERT INTO media_items (user_id, title, media_type, status, current_progress, rating, comment)
  VALUES (%s, %s, %s, %s, %s, %s, %s) RETURNING media_id\<close>
\<close>

definition insert_media ::
  "env \<Rightarrow> nat \<Rightarrow> string \<Rightarrow> string \<Rightarrow> string \<Rightarrow> int option \<Rightarrow> int option \<Rightarrow> string option
     \<Rightarrow> nat io" where
  "insert_media e uid t mt st pr ra co = store_call e InsertMedia (\<lambda>c.
     let new_id = media_seq c in
     (Inr new_id,
      c\<lparr>media_seq := Suc new_id,
        working := (working c)\<lparr>media_items := media_items (working c) @
          [\<lparr>media_id = new_id, user_id = uid, title = t, media_type = mt, status = st,
            current_progress = pr, rating = ra, comment = co, added_date = now e\<rparr>]\<rparr>\<rparr>))"

text \<open>
  \<^verbatim>\<open>DELETE FROM media_items WHERE media_id = %s AND user_id = %s\<close>; the value is
  \<^verbatim>\<open>cursor.rowcount\<close>.
\<close>

definition delete_media :: "env \<Rightarrow> nat \<Rightarrow> nat \<Rightarrow> nat io" where
  "delete_media e mid uid = store_call e DeleteMedia (\<lambda>c.
     let hit = (\<lambda>m. media_id m = mid \<and> user_id m = uid) in
     (Inr (length (filter hit (media_items (working c)))),
      c\<lparr>working := (working c)\<lparr>media_items :=
          filter (\<lambda>m. \<not> hit m) (media_items (working c))\<rparr>\<rparr>))"

text \<open>
  \<^verbatim>\<open>UPDATE media_items SET title=%s, media_type=%s, status=%s, current_progress=%s,
  rating=%s, comment=%s WHERE media_id=%s AND user_id=%s\<close>; the value is
  \<^verbatim>\<open>cursor.rowcount\<close>.
\<close>

definition update_media ::
  "env \<Rightarrow> string \<Rightarrow> string \<Rightarrow> string \<Rightarrow> int option \<Rightarrow> int option \<Rightarrow> string option
     \<Rightarrow> nat \<Rightarrow> nat \<Rightarrow> nat io" where
  "update_media e t mt st pr ra co mid uid = store_call e UpdateMedia (\<lambda>c.
     let hit = (\<lambda>m. media_id m = mid \<and> user_id m = uid) in
     (Inr (length (filter hit (media_items (working c)))),
      c\<lparr>working := (working c)\<lparr>media_items :=
          map (\<lambda>m. if hit m
                then m\<lparr>title := t, media_type := mt, status := st,
                       current_progress := pr, rating := ra, comment := co\<rparr>
                else m)
            (media_items (working c))\<rparr>\<rparr>))"

section \<open>Requests and responses\<close>

text \<open>
  The JSON body of \<^verbatim>\<open>/api/admin/register\<close> and \<^verbatim>\<open>/api/login\<close>; a field is \<open>None\<close>
  when the key is missing (\<^verbatim>\<open>data.get\<close>).
\<close>

record credentials =
  c_username :: "string option"
  c_password :: "string option"

text \<open>
  The JSON body of the media routes; a field is \<open>None\<close> when the key is missing, and
  a value that is present has the type of its column. \<open>b_user_id\<close> stands for a
  \<^verbatim>\<open>user_id\<close> key that a client may put into the body.
\<close>

record media_body =
  b_title :: "string option"
  b_media_type :: "string option"
  b_status :: "string option"
  b_progress :: "int option"
  b_rating :: "int option"
  b_comment :: "string option"
  b_user_id :: "nat option"

text \<open>\<^verbatim>\<open>GET /api/media?q=\<close> (the argument is \<open>None\<close> when absent) and \<^verbatim>\<open>POST /api/media\<close>.\<close>

datatype media_request = GET "string option" | POST media_body

text \<open>\<^verbatim>\<open>DELETE\<close> and \<^verbatim>\<open>PUT /api/media/<int:media_id>\<close>.\<close>

datatype item_request = DELETE | PUT media_body

text \<open>
  The access token of \<^verbatim>\<open>flask_jwt_extended\<close>, reduced to its subject. Signing and
  verification are the library's; a request without a valid token carries \<open>None\<close>.
\<close>

datatype token = AccessToken (sub: nat)

definition create_access_token :: "nat \<Rightarrow> token" where
  "create_access_token identity = AccessToken identity"

definition get_jwt_identity :: "token \<Rightarrow> nat" where
  "get_jwt_identity t = sub t"

text \<open>
  The message texts of the source, in the order in which they appear there;
  \<open>Missing_token\<close> is what \<^verbatim>\<open>jwt_required\<close> answers to a request without a valid
  token, and \<open>Exception_text\<close> is \<^verbatim>\<open>str(e)\<close>.
\<close>

datatype message =
    Forbidden_wrong_key
  | Credentials_empty
  | DB_Error
  | User_created string nat
  | Username_exists
  | Wrong_credentials
  | Already_in_list string
  | Added
  | Delete_failed
  | Deleted
  | Update_failed
  | Updated
  | Missing_token
  | Exception_text exn

datatype outcome = Success | Error

text \<open>
  The JSON objects the handlers build: \<^verbatim>\<open>{"msg"}\<close>, \<^verbatim>\<open>{"access_token", "username"}\<close>,
  \<^verbatim>\<open>{"status", "data"}\<close>, \<^verbatim>\<open>{"status", "message"}\<close> and
  \<^verbatim>\<open>{"status", "message", "media_id"}\<close>; \<open>Unhandled\<close> is the page Flask sends for an
  exception that leaves a handler.
\<close>

datatype payload =
    Msg message
  | Login_ok token string
  | Listing outcome "media_item list"
  | Status_message outcome message
  | Status_message_id outcome message nat
  | Unhandled exn

type_synonym response = "payload \<times> nat"

section \<open>The handlers\<close>

subsection \<open>\<^verbatim>\<open>admin_register\<close>\<close>

definition admin_register_try :: "env \<Rightarrow> string \<Rightarrow> string \<Rightarrow> response io" where
  "admin_register_try e name hashed_pw =
     and_then (insert_user e name hashed_pw) (\<lambda>new_user_id.
     and_then (commit e) (\<lambda>_.
     ret (Msg (User_created name new_user_id), 201)))"

definition admin_register ::
  "env \<Rightarrow> string option \<Rightarrow> credentials \<Rightarrow> database \<Rightarrow> response \<times> database" where
  "admin_register e admin_key data db =
     (if admin_key \<noteq> Some (ADMIN_MASTER_KEY e) then ((Msg Forbidden_wrong_key, 403), db)
      else case (c_username data, c_password data) of
        (Some name, Some password) \<Rightarrow>
          if name = [] \<or> password = [] then ((Msg Credentials_empty, 400), db)
          else (case get_db_connection e db of
            None \<Rightarrow> ((Msg DB_Error, 500), db)
          | Some conn \<Rightarrow>
              (case admin_register_try e name (generate_password_hash e password) conn of
                 (Inr resp, c) \<Rightarrow> (resp, close c)
               | (Inl IntegrityError, c) \<Rightarrow> ((Msg Username_exists, 409), close (rollback c))
               | (Inl x, c) \<Rightarrow> ((Msg (Exception_text x), 500), close (rollback c))))
      | _ \<Rightarrow> ((Msg Credentials_empty, 400), db))"

subsection \<open>\<^verbatim>\<open>login\<close>\<close>

text \<open>
  The \<^verbatim>\<open>try\<close> of \<^verbatim>\<open>login\<close> has a \<^verbatim>\<open>finally\<close> and no \<^verbatim>\<open>except\<close>: an exception
  leaves the handler. \<^verbatim>\<open>check_password_hash\<close> encodes the password it is given, which
  raises when the body has no \<^verbatim>\<open>password\<close>.
\<close>

definition login_try :: "env \<Rightarrow> credentials \<Rightarrow> response io" where
  "login_try e data =
     and_then (select_user e (c_username data)) (\<lambda>user.
       case user of
         None \<Rightarrow> ret (Msg Wrong_credentials, 401)
       | Some u \<Rightarrow>
           (case c_password data of
              None \<Rightarrow> raise AttributeError
            | Some password \<Rightarrow>
                if check_password_hash e (password_hash u) password
                then ret (Login_ok (create_access_token (u_user_id u)) (username u), 200)
                else ret (Msg Wrong_credentials, 401)))"

definition login :: "env \<Rightarrow> credentials \<Rightarrow> database \<Rightarrow> response \<times> database" where
  "login e data db =
     (case get_db_connection e db of
        None \<Rightarrow> ((Msg DB_Error, 500), db)
      | Some conn \<Rightarrow>
          (case login_try e data conn of
             (Inr resp, c) \<Rightarrow> (resp, close c)
           | (Inl x, c) \<Rightarrow> ((Unhandled x, 500), close c)))"

subsection \<open>\<^verbatim>\<open>media_api\<close>\<close>

definition media_api_try :: "env \<Rightarrow> nat \<Rightarrow> media_request \<Rightarrow> response io" where
  "media_api_try e current_user_id req =
     (case req of
        GET arg \<Rightarrow>
          (let q = (case arg of None \<Rightarrow> [] | Some s \<Rightarrow> s) in
           and_then
             (select_media e current_user_id
                (if q \<noteq> [] then Some (''%'' @ q @ ''%'') else None))
             (\<lambda>items. ret (Listing Success items, 200)))
      | POST data \<Rightarrow>
          (case b_title data of
             None \<Rightarrow> raise (KeyError ''title'')
           | Some t \<Rightarrow>
               and_then (check_title e t current_user_id) (\<lambda>found.
                 if found \<noteq> None then ret (Status_message Error (Already_in_list t), 409)
                 else (case b_media_type data of
                   None \<Rightarrow> raise (KeyError ''media_type'')
                 | Some mt \<Rightarrow>
                     (case b_status data of
                        None \<Rightarrow> raise (KeyError ''status'')
                      | Some st \<Rightarrow>
                          and_then
                            (insert_media e current_user_id t mt st
                               (b_progress data) (b_rating data) (b_comment data))
                            (\<lambda>new_id.
                          and_then (commit e) (\<lambda>_.
                          ret (Status_message_id Success Added new_id, 201))))))))"

definition media_api ::
  "env \<Rightarrow> token option \<Rightarrow> media_request \<Rightarrow> database \<Rightarrow> response \<times> database" where
  "media_api e auth req db =
     (case auth of
        None \<Rightarrow> ((Msg Missing_token, 401), db)
      | Some t \<Rightarrow>
          (let current_user_id = get_jwt_identity t in
           case get_db_connection e db of
             None \<Rightarrow> ((Msg DB_Error, 500), db)
           | Some conn \<Rightarrow>
               (case media_api_try e current_user_id req conn of
                  (Inr resp, c) \<Rightarrow> (resp, close c)
                | (Inl x, c) \<Rightarrow>
                    ((Status_message Error (Exception_text x), 500), close (rollback c)))))"

subsection \<open>\<^verbatim>\<open>item_api\<close>\<close>

definition item_api_try :: "env \<Rightarrow> nat \<Rightarrow> nat \<Rightarrow> item_request \<Rightarrow> response io" where
  "item_api_try e current_user_id mid req =
     (case req of
        DELETE \<Rightarrow>
          and_then (delete_media e mid current_user_id) (\<lambda>rowcount.
          and_then (commit e) (\<lambda>_.
            if rowcount = 0 then ret (Status_message Error Delete_failed, 404)
            else ret (Status_message Success Deleted, 200)))
      | PUT data \<Rightarrow>
          (case b_title data of
             None \<Rightarrow> raise (KeyError ''title'')
           | Some t \<Rightarrow>
               (case b_media_type data of
                  None \<Rightarrow> raise (KeyError ''media_type'')
                | Some mt \<Rightarrow>
                    (case b_status data of
                       None \<Rightarrow> raise (KeyError ''status'')
                     | Some st \<Rightarrow>
                         and_then
                           (update_media e t mt st (b_progress data) (b_rating data)
                              (b_comment data) mid current_user_id)
                           (\<lambda>rowcount.
                         and_then (commit e) (\<lambda>_.
                           if rowcount = 0 then ret (Status_message Error Update_failed, 404)
                           else ret (Status_message Success Updated, 200)))))))"

definition item_api ::
  "env \<Rightarrow> token option \<Rightarrow> nat \<Rightarrow> item_request \<Rightarrow> database \<Rightarrow> response \<times> database" where
  "item_api e auth mid req db =
     (case auth of
        None \<Rightarrow> ((Msg Missing_token, 401), db)
      | Some t \<Rightarrow>
          (let current_user_id = get_jwt_identity t in
           case get_db_connection e db of
             None \<Rightarrow> ((Msg DB_Error, 500), db)
           | Some conn \<Rightarrow>
               (case item_api_try e current_user_id mid req conn of
                  (Inr resp, c) \<Rightarrow> (resp, close c)
                | (Inl x, c) \<Rightarrow>
                    ((Status_message Error (Exception_text x), 500), close (rollback c)))))"

section \<open>Sample values\<close>

definition demo_env :: env where
  "demo_env = \<lparr>ADMIN_MASTER_KEY = ''k'', generate_password_hash = (\<lambda>p. ''h:'' @ p),
     check_password_hash = (\<lambda>h p. h = ''h:'' @ p), now = 7, raises = (\<lambda>_. False)\<rparr>"

definition empty_db :: database where
  "empty_db = \<lparr>tabs = \<lparr>users = [], media_items = []\<rparr>,
     users_user_id_seq = 1, media_items_media_id_seq = 1\<rparr>"

definition alice :: user_row where
  "alice = \<lparr>u_user_id = 1, username = ''alice'', password_hash = ''h:pw1''\<rparr>"

definition dune :: media_item where
  "dune = \<lparr>media_id = 1, user_id = 1, title = ''Dune'', media_type = ''book'',
     status = ''reading'', current_progress = None, rating = None, comment = None,
     added_date = 3\<rparr>"

definition alice_db :: database where
  "alice_db = \<lparr>tabs = \<lparr>users = [alice], media_items = [dune]\<rparr>,
     users_user_id_seq = 2, media_items_media_id_seq = 2\<rparr>"

definition solaris :: media_item where
  "solaris = \<lparr>media_id = 2, user_id = 2, title = ''Solaris'', media_type = ''movie'',
     status = ''done'', current_progress = None, rating = Some 4, comment = Some ''slow'',
     added_date = 5\<rparr>"

definition shared_db :: database where
  "shared_db = \<lparr>tabs = \<lparr>users = [alice,
         \<lparr>u_user_id = 2, username = ''bob'', password_hash = ''h:pw2''\<rparr>],
       media_items = [dune, solaris]\<rparr>,
     users_user_id_seq = 3, media_items_media_id_seq = 3\<rparr>"

definition dune_body :: media_body where
  "dune_body = \<lparr>b_title = Some ''Dune'', b_media_type = Some ''book'',
     b_status = Some ''reading'', b_progress = None, b_rating = None, b_comment = None,
     b_user_id = None\<rparr>"


definition alice_only_db :: database where
  "alice_only_db = \<lparr>tabs = \<lparr>users = [alice], media_items = [dune]\<rparr>,
     users_user_id_seq = 3, media_items_media_id_seq = 3\<rparr>"

section \<open>Notions used in the statements\<close>

text \<open>The row that \<^verbatim>\<open>login\<close> finds for the name in a request body, if any.\<close>

definition stored_user :: "database \<Rightarrow> string option \<Rightarrow> user_row option" where
  "stored_user db name =
     (case name of None \<Rightarrow> None
      | Some n \<Rightarrow> find (\<lambda>u. username u = n) (users (tabs db)))"

text \<open>The items of one user, in table order.\<close>

definition owned :: "nat \<Rightarrow> database \<Rightarrow> media_item list" where
  "owned u db = filter (\<lambda>m. user_id m = u) (media_items (tabs db))"

text \<open>
  The first of the required keys that a body lacks, in the order in which the handlers
  read them.
\<close>

definition missing_key :: "media_body \<Rightarrow> string option" where
  "missing_key data =
     (if b_title data = None then Some ''title''
      else if b_media_type data = None then Some ''media_type''
      else if b_status data = None then Some ''status''
      else None)"

text \<open>A query string without the pattern characters \<^verbatim>\<open>%\<close>, \<^verbatim>\<open>_\<close> and backslash.\<close>

definition plain :: "string \<Rightarrow> bool" where
  "plain q = list_all (\<lambda>c. c \<noteq> CHR ''%'' \<and> c \<noteq> CHR ''_'' \<and> c \<noteq> CHR 0x5C) q"

section \<open>Auxiliary facts\<close>

lemmas io_defs = ret_def raise_def and_then_def store_call_def commit_def
  get_db_connection_def connect_def close_def rollback_def

lemma find_none_list_ex: "(find P xs = None) = (\<not> list_ex P xs)"
  by (induction xs) auto

lemma find_some_list_ex: "find P xs = Some z \<Longrightarrow> list_ex P xs"
  by (induction xs) (auto split: if_splits)

lemma filter_miss: "\<not> list_ex P xs \<Longrightarrow> filter P xs = [] \<and> filter (\<lambda>x. \<not> P x) xs = xs"
  by (induction xs) auto

lemma filter_miss_conj:
  "\<not> list_ex (\<lambda>x. P x \<and> Q x) xs \<Longrightarrow> filter (\<lambda>x. P x \<longrightarrow> \<not> Q x) xs = xs"
  by (induction xs) auto

lemma map_miss: "\<not> list_ex P xs \<Longrightarrow> map (\<lambda>x. if P x then f x else x) xs = xs"
  by (induction xs) auto

lemma delete_miss:
  assumes "\<not> raises e Connect" "\<not> raises e Commit" "\<not> raises e DeleteMedia"
    and "\<not> list_ex (\<lambda>m. media_id m = mid \<and> user_id m = get_jwt_identity t)
           (media_items (tabs db))"
  shows "item_api e (Some t) mid DELETE db = ((Status_message Error Delete_failed, 404), db)"
  using assms
  by (simp add: item_api_def item_api_try_def delete_media_def io_defs Let_def filter_miss
        filter_miss_conj)

lemma put_miss:
  assumes "\<not> raises e Connect" "\<not> raises e Commit" "\<not> raises e UpdateMedia"
    and "b_title data = Some ttl" "b_media_type data = Some mt" "b_status data = Some st"
    and "\<not> list_ex (\<lambda>m. media_id m = mid \<and> user_id m = get_jwt_identity t)
           (media_items (tabs db))"
  shows "item_api e (Some t) mid (PUT data) db = ((Status_message Error Update_failed, 404), db)"
  using assms
  by (simp add: item_api_def item_api_try_def update_media_def io_defs Let_def filter_miss
        map_miss)

lemma funpow_fixed: "f x = x \<Longrightarrow> (f ^^ n) x = x"
  by (induction n) auto

lemma others_after_delete:
  "B \<noteq> A \<Longrightarrow>
   filter (\<lambda>m. (media_id m = mid \<longrightarrow> user_id m \<noteq> A) \<and> user_id m = B) xs
     = filter (\<lambda>m. user_id m = B) xs"
  by (induction xs) auto

lemma others_after_update:
  "B \<noteq> A \<Longrightarrow>
   filter (\<lambda>m. user_id m = B)
     (map (\<lambda>m. if media_id m = mid \<and> user_id m = A
             then m\<lparr>title := t, media_type := mt, status := st,
                    current_progress := pr, rating := ra, comment := co\<rparr>
             else m) xs)
     = filter (\<lambda>m. user_id m = B) xs"
  by (induction xs) auto

lemma set_order_by [simp]: "set (order_by_added_date_desc rows) = set rows"
  by (simp add: order_by_added_date_desc_def)

lemma media_api_others:
  "B \<noteq> get_jwt_identity t \<Longrightarrow>
   filter (\<lambda>m. user_id m = B) (media_items (tabs (snd (media_api e (Some t) req db))))
     = filter (\<lambda>m. user_id m = B) (media_items (tabs db))"
  by (cases req)
     (auto simp: media_api_def media_api_try_def select_media_def check_title_def
        insert_media_def io_defs Let_def split: option.splits)

lemma item_api_others:
  "B \<noteq> get_jwt_identity t \<Longrightarrow>
   filter (\<lambda>m. user_id m = B) (media_items (tabs (snd (item_api e (Some t) mid req db))))
     = filter (\<lambda>m. user_id m = B) (media_items (tabs db))"
  by (cases req)
     (auto simp: item_api_def item_api_try_def delete_media_def update_media_def io_defs
        Let_def others_after_delete others_after_update split: option.splits)

lemma listing_rows:
  "fst (media_api e (Some t) req db) = (Listing out rows, code) \<Longrightarrow>
   set rows \<subseteq> {m \<in> set (media_items (tabs db)). user_id m = get_jwt_identity t}"
  by (cases req)
     (auto simp: media_api_def media_api_try_def select_media_def check_title_def
        insert_media_def io_defs Let_def split: option.splits if_splits)

lemma try_user_id_ignored:
  "media_api_try e u (POST (data\<lparr>b_user_id := x\<rparr>)) = media_api_try e u (POST data)"
  "item_api_try e u mid (PUT (data\<lparr>b_user_id := x\<rparr>)) = item_api_try e u mid (PUT data)"
  by (simp_all add: media_api_try_def item_api_try_def cong: option.case_cong if_cong)

lemma body_user_id_ignored:
  "media_api e (Some t) (POST (data\<lparr>b_user_id := x\<rparr>)) db = media_api e (Some t) (POST data) db"
  "item_api e (Some t) mid (PUT (data\<lparr>b_user_id := x\<rparr>)) db
     = item_api e (Some t) mid (PUT data) db"
  by (simp_all add: media_api_def item_api_def try_user_id_ignored cong: option.case_cong)

lemma post_new:
  assumes "\<not> raises e Connect" "\<not> raises e CheckTitle" "\<not> raises e InsertMedia"
    "\<not> raises e Commit"
    and "b_title data = Some ttl" "b_media_type data = Some mt" "b_status data = Some st"
    and "\<not> list_ex (\<lambda>m. title m = ttl \<and> user_id m = get_jwt_identity t)
           (media_items (tabs db))"
  shows "media_api e (Some t) (POST data) db
       = ((Status_message_id Success Added (media_items_media_id_seq db), 201),
          \<lparr>tabs = \<lparr>users = users (tabs db),
              media_items = media_items (tabs db) @
                [\<lparr>media_id = media_items_media_id_seq db, user_id = get_jwt_identity t,
                  title = ttl, media_type = mt, status = st,
                  current_progress = b_progress data, rating = b_rating data,
                  comment = b_comment data, added_date = now e\<rparr>]\<rparr>,
            users_user_id_seq = users_user_id_seq db,
            media_items_media_id_seq = Suc (media_items_media_id_seq db)\<rparr>)"
  using assms
  by (auto simp: media_api_def media_api_try_def check_title_def insert_media_def io_defs
        Let_def find_none_list_ex split: option.splits dest: find_some_list_ex)

lemma get_all:
  assumes "\<not> raises e Connect" "\<not> raises e SelectMedia"
  shows "media_api e (Some t) (GET None) db
       = ((Listing Success (order_by_added_date_desc (owned (get_jwt_identity t) db)), 200), db)"
  using assms
  by (simp add: media_api_def media_api_try_def select_media_def io_defs Let_def owned_def)





lemma tabs_close_rollback [simp]: "committed (rollback c) = committed c"
  "tabs (close c) = committed c" "committed (connect db) = tabs db"
  by (simp_all add: close_def rollback_def connect_def)

subsection \<open>What a media request depends on\<close>

text \<open>
  Every statement of the two media handlers selects by the caller's \<^verbatim>\<open>user_id\<close>, so
  the answer to a request and the caller's rows after it are the same in any two stores
  that hold the same rows of the caller and the same sequence value; and a 409 is given
  only for a title that the caller has.
\<close>

lemma find_scoped:
  "find (\<lambda>m. P m \<and> user_id m = A) xs = find P (filter (\<lambda>m. user_id m = A) xs)"
  by (induction xs) auto

lemma conflict_is_own:
  assumes "fst (media_api e (Some t) req db) = (Status_message Error (Already_in_list ttl), 409)"
  shows "list_ex (\<lambda>m. title m = ttl) (owned (get_jwt_identity t) db)"
  using assms
  by (cases req)
     (auto simp: media_api_def media_api_try_def select_media_def check_title_def
        insert_media_def io_defs Let_def owned_def list_ex_iff
        split: option.splits if_splits dest!: find_some_list_ex)

lemma filter_scoped:
  "filter (\<lambda>m. P m \<and> user_id m = A) xs = filter P (filter (\<lambda>m. user_id m = A) xs)"
  by (induction xs) auto

lemma own_after_delete:
  "filter (\<lambda>m. user_id m = A) (filter (\<lambda>m. media_id m = mid \<longrightarrow> user_id m \<noteq> A) xs)
     = filter (\<lambda>m. media_id m \<noteq> mid) (filter (\<lambda>m. user_id m = A) xs)"
  by (induction xs) auto

lemma own_after_update:
  "filter (\<lambda>m. user_id m = A)
     (map (\<lambda>m. if media_id m = mid \<and> user_id m = A
             then m\<lparr>title := t, media_type := mt, status := st,
                    current_progress := pr, rating := ra, comment := co\<rparr>
             else m) xs)
     = map (\<lambda>m. if media_id m = mid
             then m\<lparr>title := t, media_type := mt, status := st,
                    current_progress := pr, rating := ra, comment := co\<rparr>
             else m) (filter (\<lambda>m. user_id m = A) xs)"
  by (induction xs) auto

lemma media_api_own_rows_only:
  assumes rows: "owned (get_jwt_identity t) db' = owned (get_jwt_identity t) db"
    and seq: "media_items_media_id_seq db' = media_items_media_id_seq db"
  shows "fst (media_api e (Some t) req db') = fst (media_api e (Some t) req db)
       \<and> owned (get_jwt_identity t) (snd (media_api e (Some t) req db'))
           = owned (get_jwt_identity t) (snd (media_api e (Some t) req db))"
proof -
  from rows have same:
    "filter (\<lambda>m. user_id m = get_jwt_identity t) (media_items (tabs db'))
       = filter (\<lambda>m. user_id m = get_jwt_identity t) (media_items (tabs db))"
    by (simp add: owned_def)
  show ?thesis
    by (cases req)
       (auto simp: media_api_def media_api_try_def select_media_def check_title_def
          insert_media_def io_defs Let_def owned_def find_scoped same seq
          split: option.splits)
qed

lemma item_api_own_rows_only:
  assumes rows: "owned (get_jwt_identity t) db' = owned (get_jwt_identity t) db"
  shows "fst (item_api e (Some t) mid req db') = fst (item_api e (Some t) mid req db)
       \<and> owned (get_jwt_identity t) (snd (item_api e (Some t) mid req db'))
           = owned (get_jwt_identity t) (snd (item_api e (Some t) mid req db))"
proof -
  from rows have same:
    "filter (\<lambda>m. user_id m = get_jwt_identity t) (media_items (tabs db'))
       = filter (\<lambda>m. user_id m = get_jwt_identity t) (media_items (tabs db))"
    by (simp add: owned_def)
  show ?thesis
    by (cases req)
       (auto simp: item_api_def item_api_try_def delete_media_def update_media_def io_defs
          Let_def owned_def filter_scoped own_after_delete own_after_update same
          simp del: filter_filter split: option.splits)
qed

subsection \<open>Login without a password\<close>

lemma login_no_password:
  assumes "\<not> raises e Connect" and "\<not> raises e SelectUser" and "c_password data = None"
  shows "login e data db
       = (if stored_user db (c_username data) = None then (Msg Wrong_credentials, 401)
          else (Unhandled AttributeError, 500), db)"
  using assms
  by (auto simp: login_def login_try_def select_user_def io_defs stored_user_def
        split: option.splits)

subsection \<open>Searching\<close>

text \<open>
  For a query without pattern characters, \<^verbatim>\<open>title ILIKE '%q%'\<close> is the search for
  \<open>q\<close> as a substring without regard to case, and every listing is in descending order
  of \<^verbatim>\<open>added_date\<close>.
\<close>

lemma like_parse_append_plain:
  "plain q \<Longrightarrow> like_parse r = Some toks \<Longrightarrow> like_parse (q @ r) = Some (map Literal q @ toks)"
  by (induction q) (auto simp: plain_def)

lemma like_parse_wrapped:
  "plain q \<Longrightarrow> like_parse (''%'' @ q @ ''%'') = Some (AnyString # map Literal q @ [AnyString])"
  by (simp add: like_parse_append_plain)

lemma lower_char_plain:
  "(lower_char c \<noteq> CHR ''%'' \<and> lower_char c \<noteq> CHR ''_'' \<and> lower_char c \<noteq> CHR 0x5C)
     = (c \<noteq> CHR ''%'' \<and> c \<noteq> CHR ''_'' \<and> c \<noteq> CHR 0x5C)"
  by (auto simp: lower_char_def split: if_splits)

lemma lower_plain: "plain (lower q) = plain q"
  by (induction q) (simp_all add: plain_def lower_def lower_char_plain)

lemma lower_wrapped: "lower (''%'' @ q @ ''%'') = ''%'' @ lower q @ ''%''"
  by (simp add: lower_def lower_char_def)

lemma like_match_any: "like_match [AnyString] s"
  by (induction s) auto

lemma like_match_literals: "like_match (map Literal q @ [AnyString]) s = prefix q s"
proof (induction q arbitrary: s)
  case Nil
  then show ?case by (simp add: like_match_any)
next
  case (Cons c q)
  then show ?case by (cases s) auto
qed

lemma like_match_contains:
  "like_match (AnyString # map Literal q @ [AnyString]) s = sublist q s"
proof (induction s)
  case Nil
  then show ?case by (cases q) auto
next
  case (Cons d s)
  then show ?case
    using like_match_literals [of q "d # s"] by (simp add: sublist_Cons_right)
qed

lemma sorted_order_by:
  "sorted_wrt (\<lambda>a b. a \<ge> b) (map added_date (order_by_added_date_desc rows))"
  by (simp add: order_by_added_date_desc_def rev_map [symmetric] sorted_wrt_rev)

lemma search_plain:
  assumes "\<not> raises e Connect" "\<not> raises e SelectMedia" "plain q"
  shows "media_api e (Some t) (GET (Some q)) db
       = ((Listing Success (order_by_added_date_desc
             (filter (\<lambda>m. sublist (lower q) (lower (title m)))
                (owned (get_jwt_identity t) db))), 200), db)"
proof (cases "q = []")
  case True
  with assms show ?thesis
    by (simp add: media_api_def media_api_try_def select_media_def io_defs Let_def owned_def
          lower_def)
next
  case False
  from assms(3) have "like_parse (lower (''%'' @ q @ ''%''))
      = Some (AnyString # map Literal (lower q) @ [AnyString])"
    unfolding lower_wrapped by (intro like_parse_wrapped) (simp add: lower_plain)
  with False assms(1,2) show ?thesis
    by (simp add: media_api_def media_api_try_def select_media_def io_defs Let_def owned_def
          like_match_contains)
qed

text \<open>
  The pattern that \<^verbatim>\<open>media_api\<close> builds always ends in \<^verbatim>\<open>%\<close>, so it is never
  rejected, and a search that finds nothing is answered 200 with an empty list.
\<close>

lemma like_parse_percent_end: "like_parse (q @ ''%'') \<noteq> None"
proof (induction q rule: like_parse.induct)
  case 1
  show ?case by simp
next
  case (2 c cs)
  show ?case
  proof (cases cs)
    case Nil
    then show ?thesis by simp
  next
    case (Cons d ds)
    with 2 show ?thesis by auto
  qed
qed

lemma search_succeeds:
  assumes "\<not> raises e Connect" "\<not> raises e SelectMedia"
  shows "\<exists>rows. media_api e (Some t) (GET arg) db = ((Listing Success rows, 200), db)"
proof (cases "arg = None \<or> arg = Some []")
  case True
  with assms show ?thesis
    by (auto simp: media_api_def media_api_try_def select_media_def io_defs Let_def)
next
  case False
  then obtain q where q: "arg = Some q" "q \<noteq> []"
    by (cases arg) auto
  have "like_parse (lower (''%'' @ q @ ''%'')) \<noteq> None"
    unfolding lower_wrapped using like_parse_percent_end [of "lower q"] by simp
  then obtain toks where "like_parse (lower (''%'' @ q @ ''%'')) = Some toks"
    by blast
  with q assms show ?thesis
    by (simp add: media_api_def media_api_try_def select_media_def io_defs Let_def)
qed

section \<open>Registration and login\<close>

text \<open>
  Claim C6. A request to \<^verbatim>\<open>/api/admin/register\<close> whose \<^verbatim>\<open>X-Admin-Key\<close> header is
  missing or differs from the configured key is answered 403, whatever the body holds
  and whatever the state of the store; nothing is written.
\<close>

theorem admin_register_forbidden:
  "admin_key \<noteq> Some (ADMIN_MASTER_KEY e) \<Longrightarrow>
   admin_register e admin_key data db = ((Msg Forbidden_wrong_key, 403), db)"
  by (simp add: admin_register_def)

theorem admin_register_forbidden_witness:
  "Some ''guess'' \<noteq> Some (ADMIN_MASTER_KEY demo_env) \<and>
   admin_register demo_env (Some ''guess'') \<lparr>c_username = None, c_password = Some ''pw1''\<rparr>
     empty_db = ((Msg Forbidden_wrong_key, 403), empty_db)"
proof -
  have wrong: "Some ''guess'' \<noteq> Some (ADMIN_MASTER_KEY demo_env)"
    by (simp add: demo_env_def)
  from admin_register_forbidden [OF wrong] wrong show ?thesis
    by simp
qed

text \<open>
  A login that carries a password, with the store reachable: a name that is not stored
  and a password that does not verify against the stored hash get the same 401
  response; a password that verifies gets 200 with a token whose subject is the row's
  \<^verbatim>\<open>user_id\<close>, and the row's \<^verbatim>\<open>username\<close>.
\<close>

lemma login_with_password:
  assumes "\<not> raises e Connect" and "\<not> raises e SelectUser"
  shows "(stored_user db (c_username data) = None \<longrightarrow>
            login e data db = ((Msg Wrong_credentials, 401), db))
       \<and> (\<forall>u p. stored_user db (c_username data) = Some u \<and> c_password data = Some p \<and>
              \<not> check_password_hash e (password_hash u) p \<longrightarrow>
            login e data db = ((Msg Wrong_credentials, 401), db))
       \<and> (\<forall>u p. stored_user db (c_username data) = Some u \<and> c_password data = Some p \<and>
              check_password_hash e (password_hash u) p \<longrightarrow>
            login e data db
              = ((Login_ok (create_access_token (u_user_id u)) (username u), 200), db) \<and>
            sub (create_access_token (u_user_id u)) = u_user_id u)"
  using assms
  by (auto simp: login_def login_try_def select_user_def io_defs stored_user_def
        create_access_token_def get_jwt_identity_def split: option.splits)

lemma login_with_password_example:
  "\<not> raises demo_env Connect \<and> \<not> raises demo_env SelectUser
   \<and> login demo_env \<lparr>c_username = Some ''bob'', c_password = Some ''pw1''\<rparr> alice_db
       = ((Msg Wrong_credentials, 401), alice_db)
   \<and> login demo_env \<lparr>c_username = Some ''alice'', c_password = Some ''pw2''\<rparr> alice_db
       = ((Msg Wrong_credentials, 401), alice_db)
   \<and> login demo_env \<lparr>c_username = Some ''alice'', c_password = Some ''pw1''\<rparr> alice_db
       = ((Login_ok (AccessToken 1) ''alice'', 200), alice_db)"
proof -
  have up: "\<not> raises demo_env Connect" "\<not> raises demo_env SelectUser"
    by (simp_all add: demo_env_def)
  have bob: "stored_user alice_db (Some ''bob'') = None"
    and al: "stored_user alice_db (Some ''alice'') = Some alice"
    by (simp_all add: stored_user_def alice_db_def alice_def)
  have chk: "\<not> check_password_hash demo_env (password_hash alice) ''pw2''"
    "check_password_hash demo_env (password_hash alice) ''pw1''"
    by (simp_all add: demo_env_def alice_def)
  from login_with_password [OF up, of alice_db "\<lparr>c_username = Some ''bob'', c_password = Some ''pw1''\<rparr>"]
    login_with_password [OF up, of alice_db "\<lparr>c_username = Some ''alice'', c_password = Some ''pw2''\<rparr>"]
    login_with_password [OF up, of alice_db "\<lparr>c_username = Some ''alice'', c_password = Some ''pw1''\<rparr>"]
    up bob al chk
  show ?thesis
    by (simp add: alice_def create_access_token_def)
qed

text \<open>
  Claim C5. A login whose body has no \<^verbatim>\<open>password\<close> is answered 500 when the name is
  stored, \<^verbatim>\<open>check_password_hash\<close> raising on the missing password and \<^verbatim>\<open>login\<close>
  catching nothing, and 401 when the name is not stored: the two answers tell whether
  the name exists.
\<close>

theorem login_without_password:
  "login demo_env \<lparr>c_username = Some ''alice'', c_password = None\<rparr> alice_db
     = ((Unhandled AttributeError, 500), alice_db)
   \<and> login demo_env \<lparr>c_username = Some ''bob'', c_password = None\<rparr> alice_db
     = ((Msg Wrong_credentials, 401), alice_db)"
  by (simp add: login_def login_try_def select_user_def io_defs demo_env_def alice_db_def
        alice_def)

text \<open>
  Claim C7. With the right key and non-empty credentials, registering a name that is not
  stored yet is answered 201 and appends one row; registering the same name again, with
  any password, is answered 409 and leaves both tables as they were.
\<close>

theorem register_twice:
  assumes up1: "\<not> raises e1 Connect" "\<not> raises e1 InsertUser" "\<not> raises e1 Commit"
    and up2: "\<not> raises e2 Connect" "\<not> raises e2 InsertUser"
    and filled: "name \<noteq> []" "p1 \<noteq> []" "p2 \<noteq> []"
    and fresh: "\<not> list_ex (\<lambda>u. username u = name) (users (tabs db))"
  shows "(let (r1, db1) = admin_register e1 (Some (ADMIN_MASTER_KEY e1))
                 \<lparr>c_username = Some name, c_password = Some p1\<rparr> db;
              (r2, db2) = admin_register e2 (Some (ADMIN_MASTER_KEY e2))
                 \<lparr>c_username = Some name, c_password = Some p2\<rparr> db1
          in r1 = (Msg (User_created name (users_user_id_seq db)), 201)
           \<and> users (tabs db1) = users (tabs db) @
                [\<lparr>u_user_id = users_user_id_seq db, username = name,
                  password_hash = generate_password_hash e1 p1\<rparr>]
           \<and> r2 = (Msg Username_exists, 409)
           \<and> tabs db2 = tabs db1)"
  using assms
  by (simp add: admin_register_def admin_register_try_def insert_user_def io_defs Let_def)

theorem register_twice_witness:
  "(\<not> raises demo_env Connect \<and> \<not> raises demo_env InsertUser \<and> \<not> raises demo_env Commit)
   \<and> ''alice'' \<noteq> [] \<and> ''pw1'' \<noteq> [] \<and> ''pw2'' \<noteq> []
   \<and> \<not> list_ex (\<lambda>u. username u = ''alice'') (users (tabs empty_db))
   \<and> (let (r1, db1) = admin_register demo_env (Some ''k'')
                 \<lparr>c_username = Some ''alice'', c_password = Some ''pw1''\<rparr> empty_db;
            (r2, db2) = admin_register demo_env (Some ''k'')
                 \<lparr>c_username = Some ''alice'', c_password = Some ''pw2''\<rparr> db1
        in r1 = (Msg (User_created ''alice'' 1), 201)
         \<and> users (tabs db1) = [alice]
         \<and> r2 = (Msg Username_exists, 409)
         \<and> tabs db2 = tabs db1)"
proof -
  have up: "\<not> raises demo_env Connect" "\<not> raises demo_env InsertUser"
    "\<not> raises demo_env Commit"
    by (simp_all add: demo_env_def)
  have filled: "''alice'' \<noteq> []" "''pw1'' \<noteq> []" "''pw2'' \<noteq> []"
    by simp_all
  have fresh: "\<not> list_ex (\<lambda>u. username u = ''alice'') (users (tabs empty_db))"
    by (simp add: empty_db_def)
  from register_twice [OF up up(1,2) filled fresh] up fresh show ?thesis
    by (simp add: demo_env_def empty_db_def alice_def)
qed

section \<open>The media routes\<close>

text \<open>
  Claim C3. \<^verbatim>\<open>POST /api/media\<close> with a title: when the caller already has an item of
  that title the answer is 409 and the store is unchanged, whatever else the body
  holds; otherwise, with \<^verbatim>\<open>media_type\<close> and \<^verbatim>\<open>status\<close> given, one row owned by
  the caller is appended and committed, and the answer is 201 with its \<^verbatim>\<open>media_id\<close>.
\<close>

theorem create_contract:
  assumes up: "\<not> raises e Connect" "\<not> raises e CheckTitle"
    and who: "get_jwt_identity t = uid"
    and ttl: "b_title data = Some ttl"
  shows "(list_ex (\<lambda>m. title m = ttl \<and> user_id m = uid) (media_items (tabs db)) \<longrightarrow>
            media_api e (Some t) (POST data) db
              = ((Status_message Error (Already_in_list ttl), 409), db))
       \<and> (\<forall>mt st. \<not> list_ex (\<lambda>m. title m = ttl \<and> user_id m = uid) (media_items (tabs db)) \<and>
              b_media_type data = Some mt \<and> b_status data = Some st \<and>
              \<not> raises e InsertMedia \<and> \<not> raises e Commit \<longrightarrow>
            media_api e (Some t) (POST data) db
              = ((Status_message_id Success Added (media_items_media_id_seq db), 201),
                 \<lparr>tabs = \<lparr>users = users (tabs db),
                     media_items = media_items (tabs db) @
                       [\<lparr>media_id = media_items_media_id_seq db, user_id = uid, title = ttl,
                         media_type = mt, status = st, current_progress = b_progress data,
                         rating = b_rating data, comment = b_comment data,
                         added_date = now e\<rparr>]\<rparr>,
                   users_user_id_seq = users_user_id_seq db,
                   media_items_media_id_seq = Suc (media_items_media_id_seq db)\<rparr>))"
  using assms
  by (auto simp: media_api_def media_api_try_def check_title_def insert_media_def io_defs
        Let_def find_none_list_ex split: option.splits dest: find_some_list_ex)


theorem create_contract_witness:
  "(\<not> raises demo_env Connect \<and> \<not> raises demo_env CheckTitle)
   \<and> get_jwt_identity (AccessToken 1) = 1
   \<and> media_api demo_env (Some (AccessToken 1))
        (POST \<lparr>b_title = Some ''Dune'', b_media_type = Some ''book'', b_status = Some ''reading'',
           b_progress = None, b_rating = None, b_comment = None, b_user_id = None\<rparr>) alice_db
       = ((Status_message Error (Already_in_list ''Dune''), 409), alice_db)
   \<and> media_api demo_env (Some (AccessToken 1))
        (POST \<lparr>b_title = Some ''Solaris'', b_media_type = Some ''book'', b_status = Some ''done'',
           b_progress = Some 204, b_rating = Some 5, b_comment = None, b_user_id = None\<rparr>) alice_db
       = ((Status_message_id Success Added 2, 201),
          \<lparr>tabs = \<lparr>users = [alice], media_items = [dune,
               \<lparr>media_id = 2, user_id = 1, title = ''Solaris'', media_type = ''book'',
                 status = ''done'', current_progress = Some 204, rating = Some 5,
                 comment = None, added_date = 7\<rparr>]\<rparr>,
            users_user_id_seq = 2, media_items_media_id_seq = 3\<rparr>)"
proof -
  have up: "\<not> raises demo_env Connect" "\<not> raises demo_env CheckTitle"
    and more: "\<not> raises demo_env InsertMedia" "\<not> raises demo_env Commit"
    by (simp_all add: demo_env_def)
  have who: "get_jwt_identity (AccessToken 1) = 1"
    by (simp add: get_jwt_identity_def)
  have there: "list_ex (\<lambda>m. title m = ''Dune'' \<and> user_id m = 1) (media_items (tabs alice_db))"
    and free: "\<not> list_ex (\<lambda>m. title m = ''Solaris'' \<and> user_id m = 1)
       (media_items (tabs alice_db))"
    by (simp_all add: alice_db_def dune_def)
  from create_contract [OF up who, of
      "\<lparr>b_title = Some ''Dune'', b_media_type = Some ''book'', b_status = Some ''reading'',
         b_progress = None, b_rating = None, b_comment = None, b_user_id = None\<rparr>"
      "''Dune''" alice_db]
    create_contract [OF up who, of
      "\<lparr>b_title = Some ''Solaris'', b_media_type = Some ''book'', b_status = Some ''done'',
         b_progress = Some 204, b_rating = Some 5, b_comment = None, b_user_id = None\<rparr>"
      "''Solaris''" alice_db]
    up who there free more
  show ?thesis
    by (simp add: alice_db_def demo_env_def)
qed

text \<open>
  Claim C1. A request that carries the token of user \<open>A\<close> leaves the items of every
  other user \<open>B\<close> exactly as they were, on both media routes, for every request and
  whatever the store does; a listing holds only items of \<open>A\<close>; a \<^verbatim>\<open>user_id\<close> put
  into the body changes nothing; a 409 names a title that \<open>A\<close> has; and the answer to
  the request and the items of \<open>A\<close> after it are the same in every store that holds
  the same items of \<open>A\<close> and the same sequence value, whatever the other users have
  there: every statement, the duplicate check included, selects by the identity of the
  token.
\<close>

theorem tenant_isolation:
  assumes who: "get_jwt_identity t = A" and other: "B \<noteq> A"
  shows "owned B (snd (media_api e (Some t) req db)) = owned B db
       \<and> owned B (snd (item_api e (Some t) mid ireq db)) = owned B db
       \<and> (\<forall>out rows code. fst (media_api e (Some t) req db) = (Listing out rows, code) \<longrightarrow>
             set rows \<subseteq> set (owned A db))
       \<and> media_api e (Some t) (POST (data\<lparr>b_user_id := x\<rparr>)) db
           = media_api e (Some t) (POST data) db
       \<and> item_api e (Some t) mid (PUT (data\<lparr>b_user_id := x\<rparr>)) db
           = item_api e (Some t) mid (PUT data) db
       \<and> (\<forall>ttl. fst (media_api e (Some t) req db)
                 = (Status_message Error (Already_in_list ttl), 409) \<longrightarrow>
             list_ex (\<lambda>m. title m = ttl) (owned A db))
       \<and> (\<forall>db'. owned A db' = owned A db \<and>
               media_items_media_id_seq db' = media_items_media_id_seq db \<longrightarrow>
             fst (media_api e (Some t) req db') = fst (media_api e (Some t) req db) \<and>
             owned A (snd (media_api e (Some t) req db'))
               = owned A (snd (media_api e (Some t) req db)) \<and>
             fst (item_api e (Some t) mid ireq db') = fst (item_api e (Some t) mid ireq db) \<and>
             owned A (snd (item_api e (Some t) mid ireq db'))
               = owned A (snd (item_api e (Some t) mid ireq db)))"
proof (intro conjI allI impI)
  from who other have neq: "B \<noteq> get_jwt_identity t"
    by simp
  show "owned B (snd (media_api e (Some t) req db)) = owned B db"
    unfolding owned_def by (rule media_api_others [OF neq])
  show "owned B (snd (item_api e (Some t) mid ireq db)) = owned B db"
    unfolding owned_def by (rule item_api_others [OF neq])
next
  fix out rows code
  assume "fst (media_api e (Some t) req db) = (Listing out rows, code)"
  from listing_rows [OF this] who show "set rows \<subseteq> set (owned A db)"
    by (simp add: owned_def)
next
  show "media_api e (Some t) (POST (data\<lparr>b_user_id := x\<rparr>)) db
      = media_api e (Some t) (POST data) db"
    by (rule body_user_id_ignored)
  show "item_api e (Some t) mid (PUT (data\<lparr>b_user_id := x\<rparr>)) db
      = item_api e (Some t) mid (PUT data) db"
    by (rule body_user_id_ignored)
next
  fix ttl
  assume "fst (media_api e (Some t) req db) = (Status_message Error (Already_in_list ttl), 409)"
  from conflict_is_own [OF this] who show "list_ex (\<lambda>m. title m = ttl) (owned A db)"
    by simp
next
  fix db'
  assume "owned A db' = owned A db \<and>
    media_items_media_id_seq db' = media_items_media_id_seq db"
  with who have rows: "owned (get_jwt_identity t) db' = owned (get_jwt_identity t) db"
    and seq: "media_items_media_id_seq db' = media_items_media_id_seq db"
    by simp_all
  from media_api_own_rows_only [OF rows seq, of e req] who
  show "fst (media_api e (Some t) req db') = fst (media_api e (Some t) req db)"
    and "owned A (snd (media_api e (Some t) req db'))
      = owned A (snd (media_api e (Some t) req db))"
    by simp_all
  from item_api_own_rows_only [OF rows, of e mid ireq] who
  show "fst (item_api e (Some t) mid ireq db') = fst (item_api e (Some t) mid ireq db)"
    and "owned A (snd (item_api e (Some t) mid ireq db'))
      = owned A (snd (item_api e (Some t) mid ireq db))"
    by simp_all
qed

theorem tenant_isolation_witness:
  "get_jwt_identity (AccessToken 1) = 1 \<and> (2::nat) \<noteq> 1
   \<and> owned 2 (snd (media_api demo_env (Some (AccessToken 1))
          (POST (dune_body\<lparr>b_title := Some ''Solaris''\<rparr>)) shared_db)) = [solaris]
   \<and> owned 2 (snd (item_api demo_env (Some (AccessToken 1)) 2 DELETE shared_db)) = [solaris]
   \<and> fst (media_api demo_env (Some (AccessToken 1)) (GET None) shared_db)
       = (Listing Success [dune], 200)
   \<and> set [dune] \<subseteq> set (owned 1 shared_db)
   \<and> media_api demo_env (Some (AccessToken 1)) (POST (dune_body\<lparr>b_user_id := Some 2\<rparr>))
        shared_db
       = media_api demo_env (Some (AccessToken 1)) (POST dune_body) shared_db
   \<and> fst (media_api demo_env (Some (AccessToken 1)) (POST dune_body) shared_db)
       = (Status_message Error (Already_in_list ''Dune''), 409)
   \<and> list_ex (\<lambda>m. title m = ''Dune'') (owned 1 shared_db)
   \<and> owned 1 alice_only_db = owned 1 shared_db
   \<and> media_items_media_id_seq alice_only_db = media_items_media_id_seq shared_db
   \<and> fst (media_api demo_env (Some (AccessToken 1))
          (POST (dune_body\<lparr>b_title := Some ''Solaris''\<rparr>)) alice_only_db)
       = fst (media_api demo_env (Some (AccessToken 1))
          (POST (dune_body\<lparr>b_title := Some ''Solaris''\<rparr>)) shared_db)
   \<and> fst (item_api demo_env (Some (AccessToken 1)) 2 DELETE alice_only_db)
       = fst (item_api demo_env (Some (AccessToken 1)) 2 DELETE shared_db)"
proof -
  have who: "get_jwt_identity (AccessToken 1) = 1"
    by (simp add: get_jwt_identity_def)
  have other: "(2::nat) \<noteq> 1"
    by simp
  have bobs: "owned 2 shared_db = [solaris]"
    by (simp add: owned_def shared_db_def dune_def solaris_def)
  have listed: "fst (media_api demo_env (Some (AccessToken 1)) (GET None) shared_db)
      = (Listing Success [dune], 200)"
    by (simp add: media_api_def media_api_try_def select_media_def io_defs demo_env_def
          get_jwt_identity_def shared_db_def dune_def solaris_def order_by_added_date_desc_def)
  have taken: "fst (media_api demo_env (Some (AccessToken 1)) (POST dune_body) shared_db)
      = (Status_message Error (Already_in_list ''Dune''), 409)"
    by (simp add: media_api_def media_api_try_def check_title_def io_defs demo_env_def
          get_jwt_identity_def shared_db_def dune_def solaris_def dune_body_def)
  have same: "owned 1 alice_only_db = owned 1 shared_db \<and>
      media_items_media_id_seq alice_only_db = media_items_media_id_seq shared_db"
    by (simp add: owned_def alice_only_db_def shared_db_def dune_def solaris_def)
  note create = tenant_isolation [OF who other, where e = demo_env and db = shared_db
      and mid = 2 and req = "POST (dune_body\<lparr>b_title := Some ''Solaris''\<rparr>)" and ireq = DELETE
      and data = dune_body and x = "Some 2"]
  note list = tenant_isolation [OF who other, where e = demo_env and db = shared_db
      and mid = 2 and req = "GET None" and ireq = DELETE and data = dune_body and x = "Some 2"]
  note again = tenant_isolation [OF who other, where e = demo_env and db = shared_db
      and mid = 2 and req = "POST dune_body" and ireq = DELETE and data = dune_body
      and x = "Some 2"]
  from create have c1: "owned 2 (snd (media_api demo_env (Some (AccessToken 1))
      (POST (dune_body\<lparr>b_title := Some ''Solaris''\<rparr>)) shared_db)) = owned 2 shared_db"
    and c2: "owned 2 (snd (item_api demo_env (Some (AccessToken 1)) 2 DELETE shared_db))
      = owned 2 shared_db"
    and c4: "media_api demo_env (Some (AccessToken 1)) (POST (dune_body\<lparr>b_user_id := Some 2\<rparr>))
        shared_db = media_api demo_env (Some (AccessToken 1)) (POST dune_body) shared_db"
    by blast+
  from list listed have c3: "set [dune] \<subseteq> set (owned 1 shared_db)"
    by blast
  from again taken have c6: "list_ex (\<lambda>m. title m = ''Dune'') (owned 1 shared_db)"
    by blast
  from create same
  have c7: "fst (media_api demo_env (Some (AccessToken 1))
          (POST (dune_body\<lparr>b_title := Some ''Solaris''\<rparr>)) alice_only_db)
       = fst (media_api demo_env (Some (AccessToken 1))
          (POST (dune_body\<lparr>b_title := Some ''Solaris''\<rparr>)) shared_db)"
    and c8: "fst (item_api demo_env (Some (AccessToken 1)) 2 DELETE alice_only_db)
       = fst (item_api demo_env (Some (AccessToken 1)) 2 DELETE shared_db)"
    by blast+
  from who other c1 c2 listed c3 c4 taken c6 same c7 c8 show ?thesis
    unfolding bobs by blast
qed

text \<open>
  Claim C4. When no item has both the \<^verbatim>\<open>media_id\<close> of the path and the caller as
  owner (whether the item does not exist or belongs to somebody else), \<^verbatim>\<open>DELETE\<close> and
  a \<^verbatim>\<open>PUT\<close> with the required fields are answered 404 and leave the store as it was;
  so the same request, repeated any number of times, is answered 404 every time.
\<close>

theorem not_found_stable:
  assumes up: "\<not> raises e Connect" "\<not> raises e Commit"
    and who: "get_jwt_identity t = uid"
    and miss: "\<not> list_ex (\<lambda>m. media_id m = mid \<and> user_id m = uid) (media_items (tabs db))"
  shows "(\<not> raises e DeleteMedia \<longrightarrow>
            (\<forall>n. item_api e (Some t) mid DELETE
                   (((\<lambda>d. snd (item_api e (Some t) mid DELETE d)) ^^ n) db)
                 = ((Status_message Error Delete_failed, 404), db)))
       \<and> (\<forall>ttl mt st. \<not> raises e UpdateMedia \<and> b_title data = Some ttl \<and>
              b_media_type data = Some mt \<and> b_status data = Some st \<longrightarrow>
            (\<forall>n. item_api e (Some t) mid (PUT data)
                   (((\<lambda>d. snd (item_api e (Some t) mid (PUT data) d)) ^^ n) db)
                 = ((Status_message Error Update_failed, 404), db)))"
proof (intro conjI impI allI)
  fix n
  assume del: "\<not> raises e DeleteMedia"
  have once: "item_api e (Some t) mid DELETE db = ((Status_message Error Delete_failed, 404), db)"
    using up del miss who by (intro delete_miss) simp_all
  then have "((\<lambda>d. snd (item_api e (Some t) mid DELETE d)) ^^ n) db = db"
    by (intro funpow_fixed) simp
  with once show "item_api e (Some t) mid DELETE
      (((\<lambda>d. snd (item_api e (Some t) mid DELETE d)) ^^ n) db)
    = ((Status_message Error Delete_failed, 404), db)"
    by simp
next
  fix ttl mt st n
  assume put: "\<not> raises e UpdateMedia \<and> b_title data = Some ttl \<and>
    b_media_type data = Some mt \<and> b_status data = Some st"
  have once: "item_api e (Some t) mid (PUT data) db
      = ((Status_message Error Update_failed, 404), db)"
    using up put miss who by (intro put_miss [of e data ttl mt st]) simp_all
  then have "((\<lambda>d. snd (item_api e (Some t) mid (PUT data) d)) ^^ n) db = db"
    by (intro funpow_fixed) simp
  with once show "item_api e (Some t) mid (PUT data)
      (((\<lambda>d. snd (item_api e (Some t) mid (PUT data) d)) ^^ n) db)
    = ((Status_message Error Update_failed, 404), db)"
    by simp
qed

theorem not_found_stable_witness:
  "(\<not> raises demo_env Connect \<and> \<not> raises demo_env Commit)
   \<and> get_jwt_identity (AccessToken 2) = 2
   \<and> \<not> list_ex (\<lambda>m. media_id m = 1 \<and> user_id m = 2) (media_items (tabs alice_db))
   \<and> item_api demo_env (Some (AccessToken 2)) 1 DELETE
        (snd (item_api demo_env (Some (AccessToken 2)) 1 DELETE alice_db))
       = ((Status_message Error Delete_failed, 404), alice_db)
   \<and> item_api demo_env (Some (AccessToken 2)) 1 (PUT dune_body)
        (snd (item_api demo_env (Some (AccessToken 2)) 1 (PUT dune_body) alice_db))
       = ((Status_message Error Update_failed, 404), alice_db)"
proof -
  have up: "\<not> raises demo_env Connect" "\<not> raises demo_env Commit"
    and more: "\<not> raises demo_env DeleteMedia" "\<not> raises demo_env UpdateMedia"
    by (simp_all add: demo_env_def)
  have who: "get_jwt_identity (AccessToken 2) = 2"
    by (simp add: get_jwt_identity_def)
  have miss: "\<not> list_ex (\<lambda>m. media_id m = 1 \<and> user_id m = 2) (media_items (tabs alice_db))"
    by (simp add: alice_db_def dune_def)
  have body: "b_title dune_body = Some ''Dune''" "b_media_type dune_body = Some ''book''"
    "b_status dune_body = Some ''reading''"
    by (simp_all add: dune_body_def)
  from not_found_stable [OF up who miss, of dune_body] more body
  have "item_api demo_env (Some (AccessToken 2)) 1 DELETE
          (((\<lambda>d. snd (item_api demo_env (Some (AccessToken 2)) 1 DELETE d)) ^^ 1) alice_db)
        = ((Status_message Error Delete_failed, 404), alice_db)"
    and "item_api demo_env (Some (AccessToken 2)) 1 (PUT dune_body)
          (((\<lambda>d. snd (item_api demo_env (Some (AccessToken 2)) 1 (PUT dune_body) d)) ^^ 1)
             alice_db)
        = ((Status_message Error Update_failed, 404), alice_db)"
    by blast+
  with up who miss show ?thesis
    by simp
qed

text \<open>
  Claim C9. After a successful \<^verbatim>\<open>POST /api/media\<close> with title, type, status and the
  optional progress, rating and comment, a listing by the same user contains a row with
  exactly these values (progress in the column \<^verbatim>\<open>current_progress\<close>), the
  \<^verbatim>\<open>media_id\<close> that the creation returned, and the store's timestamp.
\<close>

theorem create_then_list:
  assumes up: "\<not> raises e Connect" "\<not> raises e CheckTitle" "\<not> raises e InsertMedia"
      "\<not> raises e Commit"
    and up': "\<not> raises e' Connect" "\<not> raises e' SelectMedia"
    and who: "get_jwt_identity t = uid"
    and fields: "b_title data = Some ttl" "b_media_type data = Some mt"
      "b_status data = Some st"
    and fresh: "\<not> list_ex (\<lambda>m. title m = ttl \<and> user_id m = uid) (media_items (tabs db))"
  shows "(let (r1, db1) = media_api e (Some t) (POST data) db;
              (r2, db2) = media_api e' (Some t) (GET None) db1
          in r1 = (Status_message_id Success Added (media_items_media_id_seq db), 201)
           \<and> (\<exists>rows. r2 = (Listing Success rows, 200) \<and>
                 \<lparr>media_id = media_items_media_id_seq db, user_id = uid, title = ttl,
                   media_type = mt, status = st, current_progress = b_progress data,
                   rating = b_rating data, comment = b_comment data, added_date = now e\<rparr>
                 \<in> set rows))"
proof -
  from fresh who
  have fresh': "\<not> list_ex (\<lambda>m. title m = ttl \<and> user_id m = get_jwt_identity t)
      (media_items (tabs db))"
    by simp
  show ?thesis
    using who
    by (simp add: post_new [OF up fields fresh'] get_all [OF up'] owned_def)
qed

theorem create_then_list_witness:
  "(\<not> raises demo_env Connect \<and> \<not> raises demo_env CheckTitle \<and> \<not> raises demo_env InsertMedia
      \<and> \<not> raises demo_env Commit \<and> \<not> raises demo_env SelectMedia)
   \<and> get_jwt_identity (AccessToken 2) = 2
   \<and> (b_title dune_body = Some ''Dune'' \<and> b_media_type dune_body = Some ''book''
      \<and> b_status dune_body = Some ''reading'')
   \<and> \<not> list_ex (\<lambda>m. title m = ''Dune'' \<and> user_id m = 2) (media_items (tabs shared_db))
   \<and> (let (r1, db1) = media_api demo_env (Some (AccessToken 2)) (POST dune_body) shared_db;
            (r2, db2) = media_api demo_env (Some (AccessToken 2)) (GET None) db1
        in r1 = (Status_message_id Success Added 3, 201)
         \<and> (\<exists>rows. r2 = (Listing Success rows, 200) \<and>
               \<lparr>media_id = 3, user_id = 2, title = ''Dune'', media_type = ''book'',
                 status = ''reading'', current_progress = None, rating = None,
                 comment = None, added_date = 7\<rparr> \<in> set rows))"
proof -
  have up: "\<not> raises demo_env Connect" "\<not> raises demo_env CheckTitle"
    "\<not> raises demo_env InsertMedia" "\<not> raises demo_env Commit"
    and up': "\<not> raises demo_env SelectMedia"
    by (simp_all add: demo_env_def)
  have who: "get_jwt_identity (AccessToken 2) = 2"
    by (simp add: get_jwt_identity_def)
  have fields: "b_title dune_body = Some ''Dune''" "b_media_type dune_body = Some ''book''"
    "b_status dune_body = Some ''reading''"
    and rest: "b_progress dune_body = None" "b_rating dune_body = None"
      "b_comment dune_body = None"
    by (simp_all add: dune_body_def)
  have fresh: "\<not> list_ex (\<lambda>m. title m = ''Dune'' \<and> user_id m = 2)
      (media_items (tabs shared_db))"
    by (simp add: shared_db_def dune_def solaris_def)
  have seq: "media_items_media_id_seq shared_db = 3" and clock: "now demo_env = 7"
    by (simp_all add: shared_db_def demo_env_def)
  from create_then_list [OF up up(1) up' who fields fresh] up up' who fields fresh
  show ?thesis
    by (simp add: rest seq clock)
qed

section \<open>Failures\<close>




text \<open>
  Claim C10, as the code has it. \<^verbatim>\<open>PUT\<close> with a required key missing is answered 500
  and nothing is written. \<^verbatim>\<open>POST\<close> with a required key missing writes nothing
  either; it is answered 500, unless the title is there and the caller already has an
  item of that title: the duplicate check runs before \<^verbatim>\<open>media_type\<close> and
  \<^verbatim>\<open>status\<close> are read, and the answer is 409.
\<close>

theorem missing_field_response:
  assumes "missing_key data = Some k"
  shows "item_api e (Some t) mid (PUT data) db
           = ((if raises e Connect then Msg DB_Error
               else Status_message Error (Exception_text (KeyError k)), 500), db)
       \<and> media_api e (Some t) (POST data) db
           = ((if raises e Connect then (Msg DB_Error, 500)
               else case b_title data of
                 None \<Rightarrow> (Status_message Error (Exception_text (KeyError k)), 500)
               | Some ttl \<Rightarrow>
                   if raises e CheckTitle
                   then (Status_message Error (Exception_text OperationalError), 500)
                   else if list_ex (\<lambda>m. title m = ttl \<and> user_id m = get_jwt_identity t)
                             (media_items (tabs db))
                   then (Status_message Error (Already_in_list ttl), 409)
                   else (Status_message Error (Exception_text (KeyError k)), 500)), db)"
  using assms
  by (auto simp: missing_key_def item_api_def item_api_try_def media_api_def media_api_try_def
        check_title_def io_defs find_none_list_ex
        split: if_splits option.splits dest: find_some_list_ex)

theorem missing_field_response_witness:
  "missing_key (dune_body\<lparr>b_status := None\<rparr>) = Some ''status''
   \<and> item_api demo_env (Some (AccessToken 1)) 1 (PUT (dune_body\<lparr>b_status := None\<rparr>)) alice_db
       = ((Status_message Error (Exception_text (KeyError ''status'')), 500), alice_db)
   \<and> media_api demo_env (Some (AccessToken 2)) (POST (dune_body\<lparr>b_status := None\<rparr>)) alice_db
       = ((Status_message Error (Exception_text (KeyError ''status'')), 500), alice_db)
   \<and> media_api demo_env (Some (AccessToken 1)) (POST (dune_body\<lparr>b_status := None\<rparr>)) alice_db
       = ((Status_message Error (Already_in_list ''Dune''), 409), alice_db)"
proof -
  have k: "missing_key (dune_body\<lparr>b_status := None\<rparr>) = Some ''status''"
    by (simp add: missing_key_def dune_body_def)
  have ttl: "b_title (dune_body\<lparr>b_status := None\<rparr>) = Some ''Dune''"
    by (simp add: dune_body_def)
  have up: "\<not> raises demo_env Connect" "\<not> raises demo_env CheckTitle"
    by (simp_all add: demo_env_def)
  have own: "list_ex (\<lambda>m. title m = ''Dune'' \<and> user_id m = get_jwt_identity (AccessToken 1))
      (media_items (tabs alice_db))"
    "\<not> list_ex (\<lambda>m. title m = ''Dune'' \<and> user_id m = get_jwt_identity (AccessToken 2))
      (media_items (tabs alice_db))"
    by (simp_all add: alice_db_def dune_def get_jwt_identity_def)
  from missing_field_response [OF k, of demo_env "AccessToken 1" 1 alice_db]
    missing_field_response [OF k, of demo_env "AccessToken 2" 1 alice_db]
    k ttl up own
  show ?thesis
    by simp
qed

text \<open>
  Claim C10 as stated fails on a body without \<^verbatim>\<open>media_type\<close> whose title the caller
  already has: the answer is 409.
\<close>

theorem duplicate_title_without_media_type:
  "b_media_type (dune_body\<lparr>b_media_type := None\<rparr>) = None
   \<and> media_api demo_env (Some (AccessToken 1)) (POST (dune_body\<lparr>b_media_type := None\<rparr>))
        alice_db
       = ((Status_message Error (Already_in_list ''Dune''), 409), alice_db)"
  by (simp add: media_api_def media_api_try_def check_title_def io_defs demo_env_def
        alice_db_def dune_def dune_body_def get_jwt_identity_def)

section \<open>Searching with pattern characters\<close>

text \<open>
  Claim C2. The query string is put between two \<^verbatim>\<open>%\<close> and sent as the pattern of
  \<^verbatim>\<open>ILIKE\<close> as it is, so a \<^verbatim>\<open>_\<close> in it stands for any character: the query
  \<^verbatim>\<open>_\<close> returns the caller's item \<^verbatim>\<open>Dune\<close>, whose title does not contain it.
\<close>

theorem search_wildcard:
  "media_api demo_env (Some (AccessToken 1)) (GET (Some ''_'')) alice_db
     = ((Listing Success [dune], 200), alice_db)
   \<and> \<not> sublist (lower ''_'') (lower (title dune))"
  by (simp add: media_api_def media_api_try_def select_media_def io_defs demo_env_def
        alice_db_def dune_def get_jwt_identity_def lower_def lower_char_def
        order_by_added_date_desc_def sublist_code prefix_code)

end
